theory Spec2Isabelle
  imports Main "HOL-Library.Word"
begin

unbundle bit_operations_syntax

section \<open>macmasq: data model\<close>

text \<open>
  The program is one C file, \<^verbatim>\<open>macmasq.c\<close>. It talks to the operating system through
  \<^verbatim>\<open>socket\<close>, \<^verbatim>\<open>ioctl\<close>, \<^verbatim>\<open>close\<close>, \<^verbatim>\<open>rand\<close>, \<^verbatim>\<open>srand\<close>, \<^verbatim>\<open>getpid\<close> and the stdio
  streams. Each of these is modelled as a function on an explicit \<open>world\<close> record, and the
  three functions of the source are translated on top of them, statement by statement.
\<close>

subsection \<open>Constants of the system headers\<close>

text \<open>
  The values below come from the Linux headers the source includes
  (\<^verbatim>\<open>net/if.h\<close>, \<^verbatim>\<open>net/if_arp.h\<close>, \<^verbatim>\<open>sys/socket.h\<close>, \<^verbatim>\<open>netinet/in.h\<close>, \<^verbatim>\<open>stdlib.h\<close>);
  they are not part of the repository.
\<close>

definition IFNAMSIZ :: nat where "IFNAMSIZ = 16"
definition IFF_UP :: "32 word" where "IFF_UP = 0x1"
definition ARPHRD_ETHER :: "16 word" where "ARPHRD_ETHER = 1"
definition AF_INET :: int where "AF_INET = 2"
definition SOCK_DGRAM :: int where "SOCK_DGRAM = 2"
definition IPPROTO_IP :: int where "IPPROTO_IP = 0"
definition EXIT_SUCCESS :: int where "EXIT_SUCCESS = 0"
definition EXIT_FAILURE :: int where "EXIT_FAILURE = 1"

subsection \<open>Structures\<close>

text \<open>\<^verbatim>\<open>typedef struct store_mac { unsigned char bytes[6]; } MacAddress;\<close>\<close>

record MacAddress =
  bytes :: "8 word list"

text \<open>
  \<^verbatim>\<open>struct ifreq\<close>: the name buffer \<^verbatim>\<open>char ifr_name[IFNAMSIZ]\<close> followed by a union.
  The program uses two members of the union, \<^verbatim>\<open>short ifr_flags\<close> and
  \<^verbatim>\<open>struct sockaddr ifr_hwaddr\<close>. Both start at offset 0 of the union, so the 16-bit
  \<^verbatim>\<open>ifr_hwaddr.sa_family\<close> occupies the very storage of \<^verbatim>\<open>ifr_flags\<close>: the record has one
  field for that cell, and \<open>sa_family\<close> reads and writes it. \<open>sa_data\<close> is
  \<^verbatim>\<open>char ifr_hwaddr.sa_data[14]\<close>.
\<close>

record ifreq =
  ifr_name :: string
  ifr_flags :: "16 word"
  sa_data :: "8 word list"

definition sa_family :: "ifreq \<Rightarrow> 16 word" where
  "sa_family r = ifr_flags r"

definition set_sa_family :: "16 word \<Rightarrow> ifreq \<Rightarrow> ifreq" where
  "set_sa_family v r = r\<lparr>ifr_flags := v\<rparr>"

subsection \<open>The world outside the program\<close>

datatype ioctl_req = SIOCGIFFLAGS | SIOCSIFFLAGS | SIOCSIFHWADDR

text \<open>
  A system call as the kernel receives it; an event of the trace pairs it with the value
  it returned. The \<open>ifreq\<close> of an \<open>ioctl\<close> is the structure as passed in.
\<close>

datatype syscall =
  Sys_socket int int int
| Sys_ioctl int ioctl_req ifreq
| Sys_close int

type_synonym event = "syscall \<times> int"

record netdev =
  dev_flags :: "16 word"
  dev_type :: "16 word"
  dev_addr :: "8 word list"

datatype message = Perror string | Text string

text \<open>
  \<^item> \<open>netdevs\<close>: the kernel's interfaces by name;
  \<^item> \<open>open_fds\<close>: the descriptors open in the process;
  \<^item> \<open>faults\<close>: for each coming \<open>socket\<close> or \<open>ioctl\<close> call, whether the kernel refuses it
    (\<open>True\<close>) for a reason outside the model; an exhausted list refuses nothing;
  \<^item> \<open>trace\<close>: the system calls issued so far, oldest first;
  \<^item> \<open>stdout\<close>, \<open>stderr\<close>: what was written to the two streams;
  \<^item> \<open>pid\<close>: the process id;
  \<^item> \<open>libc_rand\<close>: the C library's generator, from a seed to the sequence it produces;
    \<open>rand_seed\<close> and \<open>rand_pos\<close> are its state (the seed, and how many values were drawn
    since seeding);
  \<^item> \<open>uninit\<close>: the indeterminate bytes found in local variables that have no initialiser.
\<close>

record world =
  netdevs :: "string \<rightharpoonup> netdev"
  open_fds :: "int list"
  faults :: "bool list"
  trace :: "event list"
  stdout :: "message list"
  stderr :: "message list"
  pid :: int
  libc_rand :: "int \<Rightarrow> nat \<Rightarrow> int"
  rand_seed :: int
  rand_pos :: nat
  uninit :: "nat \<Rightarrow> 8 word"

subsection \<open>C library\<close>

definition getpid :: "world \<Rightarrow> int" where
  "getpid w = pid w"

definition srand :: "int \<Rightarrow> world \<Rightarrow> world" where
  "srand seed w = w\<lparr>rand_seed := seed, rand_pos := 0\<rparr>"

definition rand :: "world \<Rightarrow> int \<times> world" where
  "rand w = (libc_rand w (rand_seed w) (rand_pos w), w\<lparr>rand_pos := Suc (rand_pos w)\<rparr>)"

text \<open>C's \<^verbatim>\<open>%\<close> on \<^verbatim>\<open>int\<close>: the remainder of the division that truncates towards zero.\<close>

definition c_rem :: "int \<Rightarrow> int \<Rightarrow> int" where
  "c_rem a b = a - b * (sgn a * sgn b * (\<bar>a\<bar> div \<bar>b\<bar>))"

text \<open>The bytes of a C string: what precedes the first NUL.\<close>

definition cstr :: "string \<Rightarrow> string" where
  "cstr s = takeWhile (\<lambda>c. c \<noteq> CHR 0x00) s"

text \<open>
  \<^verbatim>\<open>strncpy(dst, src, n)\<close>: the first \<open>n\<close> bytes of \<open>dst\<close> become the bytes of the string
  \<open>src\<close>, at most \<open>n\<close> of them, padded with NULs up to \<open>n\<close>; the rest of \<open>dst\<close> is untouched.
\<close>

definition strncpy :: "string \<Rightarrow> string \<Rightarrow> nat \<Rightarrow> string" where
  "strncpy dst src n =
     (let copied = take n (cstr src)
      in copied @ replicate (n - length copied) (CHR 0x00) @ drop n dst)"

text \<open>\<^verbatim>\<open>memcpy(dst, src, n)\<close> for \<open>n\<close> within both arrays.\<close>

definition memcpy :: "'a list \<Rightarrow> 'a list \<Rightarrow> nat \<Rightarrow> 'a list" where
  "memcpy dst src n = take n src @ drop n dst"

definition perror :: "string \<Rightarrow> world \<Rightarrow> world" where
  "perror s w = w\<lparr>stderr := stderr w @ [Perror s]\<rparr>"

definition fprintf_stderr :: "string \<Rightarrow> world \<Rightarrow> world" where
  "fprintf_stderr s w = w\<lparr>stderr := stderr w @ [Text s]\<rparr>"

definition printf :: "string \<Rightarrow> world \<Rightarrow> world" where
  "printf s w = w\<lparr>stdout := stdout w @ [Text s]\<rparr>"

text \<open>The conversion \<^verbatim>\<open>%02X\<close> of an \<^verbatim>\<open>unsigned char\<close>.\<close>

definition hex_digit :: "nat \<Rightarrow> char" where
  "hex_digit n = ''0123456789ABCDEF'' ! (n mod 16)"

definition hex02X :: "8 word \<Rightarrow> string" where
  "hex02X b = [hex_digit (unat b div 16), hex_digit (unat b mod 16)]"

subsection \<open>System calls\<close>

definition next_fault :: "world \<Rightarrow> bool \<times> world" where
  "next_fault w = (case faults w of [] \<Rightarrow> (False, w) | b # bs \<Rightarrow> (b, w\<lparr>faults := bs\<rparr>))"

text \<open>The lowest descriptor that is not open.\<close>

definition lowest_free :: "int list \<Rightarrow> int" where
  "lowest_free fds = int (length (takeWhile (\<lambda>n. int n \<in> set fds) [0..<Suc (length fds)]))"

definition log_call :: "syscall \<Rightarrow> int \<Rightarrow> world \<Rightarrow> world" where
  "log_call c ret w = w\<lparr>trace := trace w @ [(c, ret)]\<rparr>"

definition socket :: "int \<Rightarrow> int \<Rightarrow> int \<Rightarrow> world \<Rightarrow> int \<times> world" where
  "socket domain type protocol w =
     (case next_fault w of (refused, w1) \<Rightarrow>
        if refused then (- 1, log_call (Sys_socket domain type protocol) (- 1) w1)
        else let fd = lowest_free (open_fds w1)
             in (fd, log_call (Sys_socket domain type protocol) fd
                       (w1\<lparr>open_fds := fd # open_fds w1\<rparr>)))"

text \<open>
  The three requests the program issues, as the kernel is assumed to serve them; this is
  a model of the kernel, not code of the program. A request fails (\<open>-1\<close>, nothing
  changed) when the kernel refuses it, when the descriptor is not open, when no interface
  has the name in \<open>ifr_name\<close>, and for \<open>SIOCSIFHWADDR\<close> when the address family is not
  the device's type or the address is not a valid Ethernet address. A request that is
  granted returns 0: \<open>SIOCGIFFLAGS\<close> stores the interface's flags in the request,
  \<open>SIOCSIFFLAGS\<close> makes the request's flags the interface's, \<open>SIOCSIFHWADDR\<close> makes the
  first six bytes of \<open>sa_data\<close> the interface's address. Which calls are refused is not up
  to the program: the theorems below hold for every list of refusals.

  The model stores the requested flags as they are. A real kernel computes some flag bits
  itself (\<open>IFF_RUNNING\<close> follows the state of the link and is not reported while the
  interface is down), so of the flags of an interface that was brought down and not
  brought up again, only \<open>IFF_UP\<close> is meaningful; the properties below say nothing more
  about them.
\<close>

text \<open>
  The kernel's test of an Ethernet address: not a multicast address, and not all zero.
\<close>

definition is_valid_ether_addr :: "8 word list \<Rightarrow> bool" where
  "is_valid_ether_addr addr =
     (case addr of
        [] \<Rightarrow> False
      | b # _ \<Rightarrow> if bit b 0 then False else list_ex (\<lambda>x. x \<noteq> 0) addr)"

definition ioctl_effect :: "ioctl_req \<Rightarrow> ifreq \<Rightarrow> world \<Rightarrow> int \<times> ifreq \<times> world" where
  "ioctl_effect req ifr w =
     (case netdevs w (cstr (ifr_name ifr)) of
        None \<Rightarrow> (- 1, ifr, w)
      | Some d \<Rightarrow>
          (case req of
             SIOCGIFFLAGS \<Rightarrow> (0, ifr\<lparr>ifr_flags := dev_flags d\<rparr>, w)
           | SIOCSIFFLAGS \<Rightarrow>
               (0, ifr, w\<lparr>netdevs := (netdevs w)(cstr (ifr_name ifr) \<mapsto>
                                         d\<lparr>dev_flags := ifr_flags ifr\<rparr>)\<rparr>)
           | SIOCSIFHWADDR \<Rightarrow>
               if sa_family ifr = dev_type d
               then if is_valid_ether_addr (take 6 (sa_data ifr))
                    then (0, ifr, w\<lparr>netdevs := (netdevs w)(cstr (ifr_name ifr) \<mapsto>
                                                   d\<lparr>dev_addr := take 6 (sa_data ifr)\<rparr>)\<rparr>)
                    else (- 1, ifr, w)
               else (- 1, ifr, w)))"

definition ioctl :: "int \<Rightarrow> ioctl_req \<Rightarrow> ifreq \<Rightarrow> world \<Rightarrow> (int \<times> ifreq) \<times> world" where
  "ioctl fd req ifr w =
     (case next_fault w of (refused, w1) \<Rightarrow>
        if refused then ((- 1, ifr), log_call (Sys_ioctl fd req ifr) (- 1) w1)
        else if fd \<in> set (open_fds w1)
        then (case ioctl_effect req ifr w1 of (ret, ifr', w2) \<Rightarrow>
                ((ret, ifr'), log_call (Sys_ioctl fd req ifr) ret w2))
        else ((- 1, ifr), log_call (Sys_ioctl fd req ifr) (- 1) w1))"

definition close :: "int \<Rightarrow> world \<Rightarrow> int \<times> world" where
  "close fd w =
     (if fd \<in> set (open_fds w)
      then (0, log_call (Sys_close fd) 0 (w\<lparr>open_fds := removeAll fd (open_fds w)\<rparr>))
      else (- 1, log_call (Sys_close fd) (- 1) w))"

section \<open>The program\<close>

subsection \<open>\<^verbatim>\<open>generate_mac_address\<close>\<close>

text \<open>
  The \<^verbatim>\<open>for\<close> loop of lines 59 to 61, from counter \<open>i\<close>:
  \<^verbatim>\<open>mac_addr.bytes[i] = rand() % 256;\<close> The \<^verbatim>\<open>int\<close> is converted to \<^verbatim>\<open>unsigned char\<close>
  on assignment, that is, reduced modulo 256.
\<close>

function generate_mac_address_loop :: "nat \<Rightarrow> MacAddress \<Rightarrow> world \<Rightarrow> MacAddress \<times> world" where
  "generate_mac_address_loop i mac_addr w =
     (if i < 6
      then generate_mac_address_loop (Suc i)
             (mac_addr\<lparr>bytes := (bytes mac_addr)[i := word_of_int (c_rem (fst (rand w)) 256)]\<rparr>)
             (snd (rand w))
      else (mac_addr, w))"
  by pat_completeness auto
termination
  by (relation "measure (\<lambda>(i, mac_addr, w). 6 - i)") auto

definition generate_mac_address :: "world \<Rightarrow> MacAddress \<times> world" where
  "generate_mac_address w =
     (let mac_addr = \<lparr>bytes = map (uninit w) [0..<6]\<rparr>
      in case generate_mac_address_loop 0 mac_addr w of (mac_addr, w') \<Rightarrow>
           (mac_addr\<lparr>bytes := (bytes mac_addr)[0 := (bytes mac_addr ! 0 AND 0xFE) OR 0x02]\<rparr>, w'))"

subsection \<open>\<^verbatim>\<open>change_mac_address\<close>\<close>

text \<open>
  \<^verbatim>\<open>struct ifreq interface_request;\<close> has no initialiser: its bytes are whatever the
  stack holds.
\<close>

definition uninit_ifreq :: "world \<Rightarrow> ifreq" where
  "uninit_ifreq w =
     \<lparr>ifr_name = map (\<lambda>i. char_of (unat (uninit w i))) [0..<IFNAMSIZ],
      ifr_flags = word_cat (uninit w 17) (uninit w 16),
      sa_data = map (uninit w) [18..<32]\<rparr>"

text \<open>
  \<^verbatim>\<open>int original_flags\<close> holds the \<^verbatim>\<open>short\<close> flags sign-extended (\<open>scast\<close>); storing an
  \<^verbatim>\<open>int\<close> into \<^verbatim>\<open>ifr_flags\<close> truncates it (\<open>ucast\<close>). \<^verbatim>\<open>ifr_flags &= ~IFF_UP\<close> is computed
  in \<^verbatim>\<open>int\<close> and truncated on the store.
\<close>

definition change_mac_address :: "string \<Rightarrow> MacAddress \<Rightarrow> world \<Rightarrow> bool \<times> world" where
  "change_mac_address interface_name new_mac w =
     (let interface_request = uninit_ifreq w in
      case socket AF_INET SOCK_DGRAM IPPROTO_IP w of (socket_fd, w) \<Rightarrow>
      if socket_fd < 0 then (False, perror ''socket'' w)
      else
      let interface_request = interface_request
            \<lparr>ifr_name := strncpy (ifr_name interface_request) interface_name (IFNAMSIZ - 1)\<rparr>;
          interface_request = interface_request
            \<lparr>ifr_name := (ifr_name interface_request)[IFNAMSIZ - 1 := CHR 0x00]\<rparr> in
      case ioctl socket_fd SIOCGIFFLAGS interface_request w of ((rc, interface_request), w) \<Rightarrow>
      if rc < 0 then (False, snd (close socket_fd (perror ''ioctl (SIOCGIFFLAGS)'' w)))
      else
      let original_flags = (scast (ifr_flags interface_request) :: 32 word);
          interface_request = interface_request
            \<lparr>ifr_flags := ucast ((scast (ifr_flags interface_request) :: 32 word) AND NOT IFF_UP)\<rparr> in
      case ioctl socket_fd SIOCSIFFLAGS interface_request w of ((rc, interface_request), w) \<Rightarrow>
      if rc < 0 then (False, snd (close socket_fd (perror ''ioctl (SIOCSIFFLAGS - down)'' w)))
      else
      let interface_request = set_sa_family ARPHRD_ETHER interface_request;
          interface_request = interface_request
            \<lparr>sa_data := memcpy (sa_data interface_request) (bytes new_mac) 6\<rparr> in
      case ioctl socket_fd SIOCSIFHWADDR interface_request w of ((rc, interface_request), w) \<Rightarrow>
      if rc < 0 then
        let w = perror ''ioctl (SIOCSIFHWADDR)'' w;
            interface_request = interface_request\<lparr>ifr_flags := ucast original_flags\<rparr> in
        case ioctl socket_fd SIOCSIFFLAGS interface_request w of (_, w) \<Rightarrow>
        (False, snd (close socket_fd w))
      else
      let interface_request = interface_request\<lparr>ifr_flags := ucast original_flags\<rparr> in
      case ioctl socket_fd SIOCSIFFLAGS interface_request w of ((rc, interface_request), w) \<Rightarrow>
      if rc < 0 then (False, snd (close socket_fd (perror ''ioctl (SIOCSIFFLAGS - up)'' w)))
      else (True, snd (close socket_fd w)))"

subsection \<open>\<^verbatim>\<open>main\<close>\<close>

text \<open>
  \<open>argv\<close> is the argument vector and \<open>argc\<close> its length. With no argument at all
  \<^verbatim>\<open>argv[0]\<close> is a null pointer, which the C library prints as \<^verbatim>\<open>(null)\<close>.
\<close>

definition format_mac :: "MacAddress \<Rightarrow> string" where
  "format_mac m =
     ''New MAC: '' @ hex02X (bytes m ! 0) @ '':'' @ hex02X (bytes m ! 1) @ '':'' @
     hex02X (bytes m ! 2) @ '':'' @ hex02X (bytes m ! 3) @ '':'' @
     hex02X (bytes m ! 4) @ '':'' @ hex02X (bytes m ! 5) @ [CHR 0x0A]"

definition main :: "string list \<Rightarrow> world \<Rightarrow> int \<times> world" where
  "main argv w =
     (let argc = int (length argv) in
      if argc < 2
      then (EXIT_FAILURE,
            fprintf_stderr (''Usage: '' @ (case argv of [] \<Rightarrow> ''(null)'' | a # _ \<Rightarrow> a) @
                            '' INTERFACE'' @ [CHR 0x0A]) w)
      else
      let w = srand (getpid w) w in
      case generate_mac_address w of (new_mac, w) \<Rightarrow>
      case change_mac_address (argv ! 1) new_mac w of (changed, w) \<Rightarrow>
      if changed then (EXIT_SUCCESS, printf (format_mac new_mac) w)
      else (EXIT_FAILURE, fprintf_stderr (''Failed to change MAC address.'' @ [CHR 0x0A]) w))"

section \<open>Vocabulary of the properties\<close>

text \<open>The \<open>k\<close>-th value the random source produces from now on, and its low eight bits.\<close>

definition drawn :: "world \<Rightarrow> nat \<Rightarrow> int" where
  "drawn w k = libc_rand w (rand_seed w) (rand_pos w + k)"

definition drawn_byte :: "world \<Rightarrow> nat \<Rightarrow> 8 word" where
  "drawn_byte w k = word_of_int (drawn w k)"

text \<open>The system calls an action issues when started in \<open>w\<close>, with their results.\<close>

definition calls_of :: "(world \<Rightarrow> 'a \<times> world) \<Rightarrow> world \<Rightarrow> event list" where
  "calls_of f w = drop (length (trace w)) (trace (snd (f w)))"

datatype operation = Socket_creation | Flag_retrieval | Flags_set | Address_set | Closing

fun operation_of :: "event \<Rightarrow> operation" where
  "operation_of (Sys_socket _ _ _, _) = Socket_creation"
| "operation_of (Sys_ioctl _ SIOCGIFFLAGS _, _) = Flag_retrieval"
| "operation_of (Sys_ioctl _ SIOCSIFFLAGS _, _) = Flags_set"
| "operation_of (Sys_ioctl _ SIOCSIFHWADDR _, _) = Address_set"
| "operation_of (Sys_close _, _) = Closing"

definition succeeded :: "event \<Rightarrow> bool" where
  "succeeded e = (0 \<le> snd e)"

definition failed :: "event \<Rightarrow> bool" where
  "failed e = (snd e < 0)"

text \<open>The control operations of a run: every call but \<open>close\<close>.\<close>

definition control_operations :: "event list \<Rightarrow> event list" where
  "control_operations evs = filter (\<lambda>e. operation_of e \<noteq> Closing) evs"

text \<open>The request structure an \<open>ioctl\<close> event carried.\<close>

fun request_of :: "event \<Rightarrow> ifreq option" where
  "request_of (Sys_ioctl _ _ r, _) = Some r"
| "request_of (Sys_socket _ _ _, _) = None"
| "request_of (Sys_close _, _) = None"

text \<open>
  The name the kernel reads for an \<open>interface_name\<close>, and the sixteen bytes of the name
  buffer that hold it.
\<close>

definition kernel_name :: "string \<Rightarrow> string" where
  "kernel_name interface_name = take (IFNAMSIZ - 1) (cstr interface_name)"

definition padded_name :: "string \<Rightarrow> string" where
  "padded_name interface_name =
     kernel_name interface_name @
     replicate (IFNAMSIZ - length (kernel_name interface_name)) (CHR 0x00)"

text \<open>
  The four request structures of a run on \<open>interface_name\<close> with address \<open>new_mac\<close>, for
  an interface whose flags are \<open>f\<close>: to read the flags, to bring the interface down, to
  set the address, to put the flags back.
\<close>

definition named_request :: "string \<Rightarrow> world \<Rightarrow> ifreq" where
  "named_request interface_name w = (uninit_ifreq w)\<lparr>ifr_name := padded_name interface_name\<rparr>"

definition down_request :: "string \<Rightarrow> world \<Rightarrow> 16 word \<Rightarrow> ifreq" where
  "down_request interface_name w f = (named_request interface_name w)\<lparr>ifr_flags := f AND NOT 1\<rparr>"

definition address_request :: "string \<Rightarrow> world \<Rightarrow> MacAddress \<Rightarrow> ifreq" where
  "address_request interface_name w new_mac =
     (named_request interface_name w)
       \<lparr>ifr_flags := ARPHRD_ETHER,
        sa_data := take 6 (bytes new_mac) @ drop 6 (sa_data (uninit_ifreq w))\<rparr>"

definition restore_request :: "string \<Rightarrow> world \<Rightarrow> MacAddress \<Rightarrow> 16 word \<Rightarrow> ifreq" where
  "restore_request interface_name w new_mac f =
     (address_request interface_name w new_mac)\<lparr>ifr_flags := f\<rparr>"

text \<open>
  The bring-down of a run is its first flags-set operation; the run has brought the
  interface down when that operation succeeded.
\<close>

definition brought_down :: "event list \<Rightarrow> bool" where
  "brought_down evs =
     (case filter (\<lambda>e. operation_of e = Flags_set) evs of
        [] \<Rightarrow> False
      | e # _ \<Rightarrow> succeeded e)"

definition clears_IFF_UP :: "event \<Rightarrow> bool" where
  "clears_IFF_UP e = (case request_of e of None \<Rightarrow> False | Some r \<Rightarrow> \<not> bit (ifr_flags r) 0)"

text \<open>
  The order bring-down, change, bring-up, read off a list of events from left to right.
  The first flags-set operation must clear \<open>IFF_UP\<close>; no address-set operation may come
  before it; a further flags-set operation (the restore) may not come before an
  address-set operation. With \<open>strict\<close> the restore may only follow an address-set
  operation that succeeded; without it the restore may also follow one that failed.
\<close>

datatype phase = Before_down | After_down | After_failed_change | After_change

fun in_order :: "bool \<Rightarrow> phase \<Rightarrow> event list \<Rightarrow> bool" where
  "in_order strict ph [] = True"
| "in_order strict ph (e # es) =
     (case operation_of e of
        Flags_set \<Rightarrow>
          (case ph of
             Before_down \<Rightarrow> clears_IFF_UP e \<and> in_order strict After_down es
           | After_down \<Rightarrow> False
           | After_failed_change \<Rightarrow> (if strict then False else in_order strict ph es)
           | After_change \<Rightarrow> in_order strict ph es)
      | Address_set \<Rightarrow>
          (case ph of
             Before_down \<Rightarrow> False
           | After_down \<Rightarrow>
               in_order strict (if succeeded e then After_change else After_failed_change) es
           | After_failed_change \<Rightarrow>
               in_order strict (if succeeded e then After_change else After_failed_change) es
           | After_change \<Rightarrow>
               in_order strict (if succeeded e then After_change else After_failed_change) es)
      | Socket_creation \<Rightarrow> in_order strict ph es
      | Flag_retrieval \<Rightarrow> in_order strict ph es
      | Closing \<Rightarrow> in_order strict ph es)"

text \<open>
  A host for concrete runs: one Ethernet interface \<open>eth0\<close> that is up (flags \<open>0x1043\<close>),
  the three standard descriptors open, and a given list of refusals.
\<close>

definition example_world :: "bool list \<Rightarrow> world" where
  "example_world fs =
     \<lparr>netdevs = [''eth0'' \<mapsto> \<lparr>dev_flags = 0x1043, dev_type = 1,
                              dev_addr = [0x00, 0x16, 0x3E, 0x12, 0x34, 0x56]\<rparr>],
      open_fds = [0, 1, 2], faults = fs, trace = [], stdout = [], stderr = [],
      pid = 4242, libc_rand = (\<lambda>seed k. seed + 37 * int k), rand_seed = 1, rand_pos = 0,
      uninit = (\<lambda>_. 0xAA)\<rparr>"

definition example_mac :: MacAddress where
  "example_mac = \<lparr>bytes = [0x02, 0x11, 0x22, 0x33, 0x44, 0x55]\<rparr>"

text \<open>
  Reading back a line of the form \<^verbatim>\<open>New MAC: XX:XX:XX:XX:XX:XX\<close> followed by a newline,
  where each \<^verbatim>\<open>XX\<close> is two upper-case hexadecimal digits: the bytes it shows, or \<open>None\<close>
  for any other line.
\<close>

definition hex_value :: "char \<Rightarrow> nat option" where
  "hex_value c =
     map_of [(CHR ''0'', 0), (CHR ''1'', 1), (CHR ''2'', 2), (CHR ''3'', 3),
             (CHR ''4'', 4), (CHR ''5'', 5), (CHR ''6'', 6), (CHR ''7'', 7),
             (CHR ''8'', 8), (CHR ''9'', 9), (CHR ''A'', 10), (CHR ''B'', 11),
             (CHR ''C'', 12), (CHR ''D'', 13), (CHR ''E'', 14), (CHR ''F'', 15)] c"

fun read_pairs :: "string \<Rightarrow> 8 word list option" where
  "read_pairs (a # b # c # rest) =
     (case hex_value a of
        None \<Rightarrow> None
      | Some x \<Rightarrow>
          (case hex_value b of
             None \<Rightarrow> None
           | Some y \<Rightarrow>
               if c = CHR 0x0A then (if rest = [] then Some [of_nat (16 * x + y)] else None)
               else if c = CHR '':''
               then map_option ((#) (of_nat (16 * x + y))) (read_pairs rest)
               else None))"
| "read_pairs _ = None"

definition read_mac_line :: "string \<Rightarrow> 8 word list option" where
  "read_mac_line s =
     (if take 9 s = ''New MAC: ''
      then (case read_pairs (drop 9 s) of
              None \<Rightarrow> None
            | Some bs \<Rightarrow> if length bs = 6 then Some bs else None)
      else None)"

section \<open>Arithmetic of the generated bytes\<close>

declare generate_mac_address_loop.simps [simp del]

lemma word_of_int_c_rem_256: "(word_of_int (c_rem r 256) :: 8 word) = word_of_int r"
proof -
  have z: "(256 :: 8 word) = 0" by simp
  have "(word_of_int (c_rem r 256) :: 8 word)
        = word_of_int r - 256 * word_of_int (sgn r * (\<bar>r\<bar> div 256))"
    by (simp add: c_rem_def)
  also have "\<dots> = word_of_int r"
    unfolding z by simp
  finally show ?thesis .
qed

text \<open>
  The loop from counter \<open>i\<close> keeps the first \<open>i\<close> bytes and fills the others with the next
  values of the random source, one draw per byte.
\<close>

lemma generate_mac_address_loop_result:
  "i \<le> 6 \<Longrightarrow> length (bytes m) = 6 \<Longrightarrow>
   generate_mac_address_loop i m w =
     (m\<lparr>bytes := take i (bytes m) @ map (\<lambda>k. drawn_byte w (k - i)) [i..<6]\<rparr>,
      w\<lparr>rand_pos := rand_pos w + (6 - i)\<rparr>)"
proof (induction i m w rule: generate_mac_address_loop.induct)
  case (1 i mac_addr w)
  show ?case
  proof (cases "i < 6")
    case False
    with "1.prems" have "i = 6" by simp
    then show ?thesis
      using "1.prems" by (simp add: generate_mac_address_loop.simps [of 6])
  next
    case True
    let ?b = "word_of_int (c_rem (fst (rand w)) 256) :: 8 word"
    let ?m = "mac_addr\<lparr>bytes := (bytes mac_addr)[i := ?b]\<rparr>"
    have b: "?b = drawn_byte w 0"
      by (simp add: word_of_int_c_rem_256 rand_def drawn_byte_def drawn_def)
    have step: "generate_mac_address_loop i mac_addr w
                = generate_mac_address_loop (Suc i) ?m (snd (rand w))"
      using True by (subst generate_mac_address_loop.simps) simp
    have later: "drawn_byte (snd (rand w)) k = drawn_byte w (Suc k)" for k
      by (simp add: rand_def drawn_byte_def drawn_def)
    have ih: "generate_mac_address_loop (Suc i) ?m (snd (rand w)) =
          (?m\<lparr>bytes := take (Suc i) (bytes ?m) @
                   map (\<lambda>k. drawn_byte (snd (rand w)) (k - Suc i)) [Suc i..<6]\<rparr>,
           (snd (rand w))\<lparr>rand_pos := rand_pos (snd (rand w)) + (6 - Suc i)\<rparr>)"
      using True "1.prems" by (intro "1.IH") simp_all
    have lst: "take (Suc i) ((bytes mac_addr)[i := ?b]) = take i (bytes mac_addr) @ [drawn_byte w 0]"
      using True "1.prems" by (simp add: take_Suc_conv_app_nth b)
    have mp: "map (\<lambda>k. drawn_byte w (k - i)) [i..<6]
              = drawn_byte w 0 # map (\<lambda>k. drawn_byte w (Suc (k - Suc i))) [Suc i..<6]"
      using True by (simp add: upt_conv_Cons Suc_diff_Suc del: upt_Suc)
    have w_eq: "(snd (rand w))\<lparr>rand_pos := rand_pos (snd (rand w)) + (6 - Suc i)\<rparr>
                = w\<lparr>rand_pos := rand_pos w + (6 - i)\<rparr>"
      using True by (simp add: rand_def)
    show ?thesis
      unfolding step ih w_eq by (simp add: lst mp later)
  qed
qed

lemma generate_mac_address_result:
  "generate_mac_address w =
     (\<lparr>bytes = [(drawn_byte w 0 AND 0xFE) OR 0x02, drawn_byte w 1, drawn_byte w 2,
                drawn_byte w 3, drawn_byte w 4, drawn_byte w 5]\<rparr>,
      w\<lparr>rand_pos := rand_pos w + 6\<rparr>)"
proof -
  have loop: "generate_mac_address_loop 0 \<lparr>bytes = map (uninit w) [0..<6]\<rparr> w =
          (\<lparr>bytes = map (drawn_byte w) [0..<6]\<rparr>, w\<lparr>rand_pos := rand_pos w + 6\<rparr>)"
    by (simp add: generate_mac_address_loop_result)
  have six: "[0..<6] = [0, 1, 2, 3, 4, 5::nat]"
    by (simp add: upt_rec)
  show ?thesis
    unfolding generate_mac_address_def Let_def loop by (simp add: six)
qed

section \<open>The name buffer\<close>

lemma cstr_padded_name: "cstr (padded_name n) = kernel_name n"
proof -
  have nz: "\<forall>c \<in> set (kernel_name n). c \<noteq> CHR 0x00"
    unfolding kernel_name_def cstr_def
    by (auto dest!: in_set_takeD set_takeWhileD)
  have pos: "IFNAMSIZ - length (kernel_name n) = Suc (IFNAMSIZ - 1 - length (kernel_name n))"
    by (simp add: kernel_name_def IFNAMSIZ_def)
  show ?thesis
    unfolding padded_name_def pos cstr_def using nz
    by (simp add: takeWhile_append2 del: replicate_Suc add: replicate_Suc [symmetric])
qed

lemma length_kernel_name: "length (kernel_name n) \<le> IFNAMSIZ - 1"
  by (simp add: kernel_name_def)

lemma length_padded_name: "length (padded_name n) = IFNAMSIZ"
  by (simp add: padded_name_def kernel_name_def IFNAMSIZ_def)

lemma last_padded_name: "padded_name n ! (IFNAMSIZ - 1) = CHR 0x00"
  by (simp add: padded_name_def kernel_name_def IFNAMSIZ_def nth_append)

text \<open>Lines 91 and 92 leave exactly the padded name in the buffer.\<close>

lemma strncpy_terminated:
  "length dst = IFNAMSIZ \<Longrightarrow>
   (strncpy dst n (IFNAMSIZ - 1))[IFNAMSIZ - 1 := CHR 0x00] = padded_name n"
proof -
  assume len: "length dst = IFNAMSIZ"
  define k where "k = kernel_name n"
  have kl: "length k \<le> 15"
    by (simp add: k_def kernel_name_def IFNAMSIZ_def)
  obtain x where x: "drop 15 dst = [x]"
    using len by (cases "drop 15 dst") (auto simp: IFNAMSIZ_def drop_eq_Nil dest: arg_cong [where f = length])
  have "strncpy dst n (IFNAMSIZ - 1) = (k @ replicate (15 - length k) (CHR 0x00)) @ [x]"
    by (simp add: strncpy_def Let_def k_def kernel_name_def IFNAMSIZ_def x)
  moreover have "length (k @ replicate (15 - length k) (CHR 0x00)) = 15"
    using kl by simp
  ultimately have "(strncpy dst n (IFNAMSIZ - 1))[IFNAMSIZ - 1 := CHR 0x00]
        = (k @ replicate (15 - length k) (CHR 0x00)) @ [CHR 0x00]"
    by (simp add: IFNAMSIZ_def list_update_append del: append_assoc)
  also have "\<dots> = k @ replicate (Suc (15 - length k)) (CHR 0x00)"
    by (simp add: replicate_append_same)
  also have "Suc (15 - length k) = IFNAMSIZ - length k"
    using kl by (simp add: IFNAMSIZ_def)
  finally show ?thesis
    by (simp add: padded_name_def k_def)
qed

lemma uninit_name_length: "length (ifr_name (uninit_ifreq w)) = IFNAMSIZ"
  by (simp add: uninit_ifreq_def)

lemma name_buffer_set:
  "(strncpy (ifr_name (uninit_ifreq w)) n (IFNAMSIZ - Suc 0))[IFNAMSIZ - Suc 0 := CHR 0x00]
   = padded_name n"
  using strncpy_terminated [OF uninit_name_length, of w n] by simp


section \<open>Integer conversions and system calls\<close>

text \<open>Flags survive the round trip through \<^verbatim>\<open>int\<close>, and the mask is the 16-bit one.\<close>

lemma ucast_scast_flags: "ucast ((scast (x::16 word) :: 32 word)) = x"
  by (rule bit_word_eqI) (auto simp add: bit_simps)

lemma clear_IFF_UP: "ucast ((scast (x::16 word) :: 32 word) AND NOT IFF_UP) = x AND NOT 1"
  unfolding IFF_UP_def
  by (rule bit_word_eqI) (auto simp add: bit_simps)

text \<open>What each call changes in the world, and what it leaves alone.\<close>

lemma socket_frame:
  assumes "socket d t p w = (fd, w1)"
  shows "trace w1 = trace w @ [(Sys_socket d t p, fd)]"
    and "netdevs w1 = netdevs w" and "stderr w1 = stderr w" and "stdout w1 = stdout w"
    and "rand_pos w1 = rand_pos w" and "uninit w1 = uninit w"
    and "open_fds w1 = (if fd < 0 then open_fds w else fd # open_fds w)"
    and "fd < 0 \<Longrightarrow> fd = - 1"
  using assms
  by (auto simp: socket_def next_fault_def log_call_def lowest_free_def Let_def
           split: list.splits if_splits)

lemma ioctl_frame:
  assumes "ioctl fd req r w = ((rc, r'), w')"
  shows "trace w' = trace w @ [(Sys_ioctl fd req r, rc)]"
    and "open_fds w' = open_fds w" and "stderr w' = stderr w" and "stdout w' = stdout w"
    and "rand_pos w' = rand_pos w"
  using assms
  by (auto simp: ioctl_def ioctl_effect_def next_fault_def log_call_def
           split: list.splits if_splits option.splits ioctl_req.splits)

lemma ioctl_failure:
  assumes "ioctl fd req r w = ((rc, r'), w')" and "rc < 0"
  shows "r' = r" and "netdevs w' = netdevs w" and "rc = - 1"
  using assms
  by (auto simp: ioctl_def ioctl_effect_def next_fault_def log_call_def
           split: list.splits if_splits option.splits ioctl_req.splits)

lemma ioctl_get_success:
  assumes "ioctl fd SIOCGIFFLAGS r w = ((rc, r'), w')" and "\<not> rc < 0"
  obtains d where "netdevs w (cstr (ifr_name r)) = Some d"
    and "r' = r\<lparr>ifr_flags := dev_flags d\<rparr>" and "netdevs w' = netdevs w" and "rc = 0"
  using assms
  by (auto simp: ioctl_def ioctl_effect_def next_fault_def log_call_def
           split: list.splits if_splits option.splits)

lemma ioctl_set_flags_success:
  assumes "ioctl fd SIOCSIFFLAGS r w = ((rc, r'), w')" and "\<not> rc < 0"
  obtains d where "netdevs w (cstr (ifr_name r)) = Some d"
    and "r' = r" and "rc = 0"
    and "netdevs w' = (netdevs w)(cstr (ifr_name r) \<mapsto> d\<lparr>dev_flags := ifr_flags r\<rparr>)"
  using assms
  by (auto simp: ioctl_def ioctl_effect_def next_fault_def log_call_def
           split: list.splits if_splits option.splits)

lemma ioctl_set_address_success:
  assumes "ioctl fd SIOCSIFHWADDR r w = ((rc, r'), w')" and "\<not> rc < 0"
  obtains d where "netdevs w (cstr (ifr_name r)) = Some d"
    and "r' = r" and "rc = 0"
    and "netdevs w' = (netdevs w)(cstr (ifr_name r) \<mapsto> d\<lparr>dev_addr := take 6 (sa_data r)\<rparr>)"
  using assms
  by (auto simp: ioctl_def ioctl_effect_def next_fault_def log_call_def
           split: list.splits if_splits option.splits)

lemma perror_frame:
  "trace (perror s w) = trace w" "netdevs (perror s w) = netdevs w"
  "open_fds (perror s w) = open_fds w" "stderr (perror s w) = stderr w @ [Perror s]"
  "stdout (perror s w) = stdout w" "rand_pos (perror s w) = rand_pos w"
  by (simp_all add: perror_def)

lemma close_frame:
  "trace (snd (close fd w)) = trace w @ [(Sys_close fd, if fd \<in> set (open_fds w) then 0 else - 1)]"
  "netdevs (snd (close fd w)) = netdevs w"
  "open_fds (snd (close fd w)) = removeAll fd (open_fds w)"
  "stderr (snd (close fd w)) = stderr w"
  "stdout (snd (close fd w)) = stdout w" "rand_pos (snd (close fd w)) = rand_pos w"
  by (simp_all add: close_def log_call_def)

section \<open>The runs of \<^verbatim>\<open>change_mac_address\<close>\<close>

lemma request_names [simp]:
  "cstr (ifr_name (named_request n w)) = kernel_name n"
  "cstr (ifr_name (down_request n w f)) = kernel_name n"
  "cstr (ifr_name (address_request n w m)) = kernel_name n"
  "cstr (ifr_name (restore_request n w m f)) = kernel_name n"
  by (simp_all add: named_request_def down_request_def address_request_def restore_request_def
        cstr_padded_name)


text \<open>
  Every run of \<open>change_mac_address\<close> is one of six: the socket cannot be created; the
  flags cannot be read; the interface cannot be brought down; the address cannot be set
  (and the flags are put back, with either result); the flags cannot be put back after
  the address was set; or every step succeeds. Each case gives the result, the calls
  issued with their return values, the interfaces on return and the messages printed.
\<close>

lemma change_mac_address_runs [consumes 1, case_names socket_failed retrieval_failed
    down_failed address_failed up_failed changed]:
  assumes R: "change_mac_address n m w = (ok, w')"
  obtains
    (socket_failed)
      "\<not> ok"
      "trace w' = trace w @ [(Sys_socket AF_INET SOCK_DGRAM IPPROTO_IP, - 1)]"
      "netdevs w' = netdevs w"
      "stderr w' = stderr w @ [Perror ''socket'']"
      "open_fds w' = open_fds w"
  | (retrieval_failed) fd where
      "0 \<le> fd" "\<not> ok"
      "trace w' = trace w @
         [(Sys_socket AF_INET SOCK_DGRAM IPPROTO_IP, fd),
          (Sys_ioctl fd SIOCGIFFLAGS (named_request n w), - 1),
          (Sys_close fd, 0)]"
      "netdevs w' = netdevs w"
      "stderr w' = stderr w @ [Perror ''ioctl (SIOCGIFFLAGS)'']"
      "open_fds w' = removeAll fd (open_fds w)"
  | (down_failed) fd d where
      "0 \<le> fd" "\<not> ok" "netdevs w (kernel_name n) = Some d"
      "trace w' = trace w @
         [(Sys_socket AF_INET SOCK_DGRAM IPPROTO_IP, fd),
          (Sys_ioctl fd SIOCGIFFLAGS (named_request n w), 0),
          (Sys_ioctl fd SIOCSIFFLAGS (down_request n w (dev_flags d)), - 1),
          (Sys_close fd, 0)]"
      "netdevs w' = netdevs w"
      "stderr w' = stderr w @ [Perror ''ioctl (SIOCSIFFLAGS - down)'']"
      "open_fds w' = removeAll fd (open_fds w)"
  | (address_failed) fd d rc where
      "0 \<le> fd" "\<not> ok" "netdevs w (kernel_name n) = Some d" "rc = 0 \<or> rc = - 1"
      "trace w' = trace w @
         [(Sys_socket AF_INET SOCK_DGRAM IPPROTO_IP, fd),
          (Sys_ioctl fd SIOCGIFFLAGS (named_request n w), 0),
          (Sys_ioctl fd SIOCSIFFLAGS (down_request n w (dev_flags d)), 0),
          (Sys_ioctl fd SIOCSIFHWADDR (address_request n w m), - 1),
          (Sys_ioctl fd SIOCSIFFLAGS (restore_request n w m (dev_flags d)), rc),
          (Sys_close fd, 0)]"
      "netdevs w' = (netdevs w)(kernel_name n \<mapsto>
         (if rc = 0 then d else d\<lparr>dev_flags := dev_flags d AND NOT 1\<rparr>))"
      "stderr w' = stderr w @ [Perror ''ioctl (SIOCSIFHWADDR)'']"
      "open_fds w' = removeAll fd (open_fds w)"
  | (up_failed) fd d where
      "0 \<le> fd" "\<not> ok" "netdevs w (kernel_name n) = Some d"
      "trace w' = trace w @
         [(Sys_socket AF_INET SOCK_DGRAM IPPROTO_IP, fd),
          (Sys_ioctl fd SIOCGIFFLAGS (named_request n w), 0),
          (Sys_ioctl fd SIOCSIFFLAGS (down_request n w (dev_flags d)), 0),
          (Sys_ioctl fd SIOCSIFHWADDR (address_request n w m), 0),
          (Sys_ioctl fd SIOCSIFFLAGS (restore_request n w m (dev_flags d)), - 1),
          (Sys_close fd, 0)]"
      "netdevs w' = (netdevs w)(kernel_name n \<mapsto>
         d\<lparr>dev_flags := dev_flags d AND NOT 1,
           dev_addr := take 6 (sa_data (address_request n w m))\<rparr>)"
      "stderr w' = stderr w @ [Perror ''ioctl (SIOCSIFFLAGS - up)'']"
      "open_fds w' = removeAll fd (open_fds w)"
  | (changed) fd d where
      "0 \<le> fd" "ok" "netdevs w (kernel_name n) = Some d"
      "trace w' = trace w @
         [(Sys_socket AF_INET SOCK_DGRAM IPPROTO_IP, fd),
          (Sys_ioctl fd SIOCGIFFLAGS (named_request n w), 0),
          (Sys_ioctl fd SIOCSIFFLAGS (down_request n w (dev_flags d)), 0),
          (Sys_ioctl fd SIOCSIFHWADDR (address_request n w m), 0),
          (Sys_ioctl fd SIOCSIFFLAGS (restore_request n w m (dev_flags d)), 0),
          (Sys_close fd, 0)]"
      "netdevs w' = (netdevs w)(kernel_name n \<mapsto>
         d\<lparr>dev_addr := take 6 (sa_data (address_request n w m))\<rparr>)"
      "stderr w' = stderr w"
      "open_fds w' = removeAll fd (open_fds w)"
proof -
  let ?k = "kernel_name n"
  note defs = change_mac_address_def Let_def name_buffer_set
    named_request_def down_request_def address_request_def restore_request_def
    set_sa_family_def memcpy_def ucast_scast_flags clear_IFF_UP
  obtain fd w1 where S: "socket AF_INET SOCK_DGRAM IPPROTO_IP w = (fd, w1)"
    by (cases "socket AF_INET SOCK_DGRAM IPPROTO_IP w")
  note S1 = socket_frame [OF S]
  show thesis
  proof (cases "fd < 0")
    case True
    have "(ok, w') = (False, perror ''socket'' w1)"
      using S True R by (simp add: defs)
    then show thesis
      using True S1 by (intro socket_failed) (simp_all add: perror_frame)
  next
    case fd: False
    then have fd_open: "fd \<in> set (open_fds w1)" and fd0: "0 \<le> fd"
      using S1 by simp_all
    obtain rc2 r2 w2 where
      G: "ioctl fd SIOCGIFFLAGS (named_request n w) w1 = ((rc2, r2), w2)"
      by (metis prod.exhaust)
    note G1 = ioctl_frame [OF G]
    show thesis
    proof (cases "rc2 < 0")
      case True
      have "(ok, w') = (False, snd (close fd (perror ''ioctl (SIOCGIFFLAGS)'' w2)))"
        using S fd G True R by (simp add: defs)
      then show thesis
        using True S1 G1 ioctl_failure [OF G True] fd fd0
        by (intro retrieval_failed [of fd]) (simp_all add: perror_frame close_frame)
    next
      case rc2: False
      from G rc2 obtain d where d: "netdevs w1 ?k = Some d"
        and r2: "r2 = (named_request n w)\<lparr>ifr_flags := dev_flags d\<rparr>"
        and n2: "netdevs w2 = netdevs w1" and rc2_0: "rc2 = 0"
        by (rule ioctl_get_success) simp
      obtain rc3 r3 w3 where
        D: "ioctl fd SIOCSIFFLAGS (down_request n w (dev_flags d)) w2 = ((rc3, r3), w3)"
        by (metis prod.exhaust)
      note D1 = ioctl_frame [OF D]
      show thesis
      proof (cases "rc3 < 0")
        case True
        have "(ok, w') = (False, snd (close fd (perror ''ioctl (SIOCSIFFLAGS - down)'' w3)))"
          using S fd G rc2 D True R unfolding r2 by (simp add: defs)
        then show thesis
          using True S1 G1 D1 ioctl_failure [OF D True] fd fd0 d n2 rc2_0
          by (intro down_failed [of fd d]) (simp_all add: perror_frame close_frame)
      next
        case rc3: False
        from D rc3 obtain d3 where d3: "netdevs w2 ?k = Some d3"
          and r3: "r3 = down_request n w (dev_flags d)" and rc3_0: "rc3 = 0"
          and n3': "netdevs w3 = (netdevs w2)(?k \<mapsto>
                      d3\<lparr>dev_flags := ifr_flags (down_request n w (dev_flags d))\<rparr>)"
          by (rule ioctl_set_flags_success) simp
        have "d3 = d"
          using d3 d n2 by simp
        then have n3: "netdevs w3 = (netdevs w)(?k \<mapsto> d\<lparr>dev_flags := dev_flags d AND NOT 1\<rparr>)"
          using n3' n2 S1 by (simp add: down_request_def)
        obtain rc4 r4 w4 where
          H: "ioctl fd SIOCSIFHWADDR (address_request n w m) w3 = ((rc4, r4), w4)"
          by (metis prod.exhaust)
        note H1 = ioctl_frame [OF H]
        show thesis
        proof (cases "rc4 < 0")
          case True
          note H2 = ioctl_failure [OF H True]
          obtain rc5 r5 w5 where
            U: "ioctl fd SIOCSIFFLAGS (restore_request n w m (dev_flags d))
                  (perror ''ioctl (SIOCSIFHWADDR)'' w4) = ((rc5, r5), w5)"
            by (metis prod.exhaust)
          note U1 = ioctl_frame [OF U]
          have res: "(ok, w') = (False, snd (close fd w5))"
            using S fd G rc2 D rc3 H True U R unfolding r2 r3 H2(1) by (simp add: defs)
          have n5: "netdevs w5 = (netdevs w)(?k \<mapsto>
                      (if rc5 = 0 then d else d\<lparr>dev_flags := dev_flags d AND NOT 1\<rparr>))"
            and rc5: "rc5 = 0 \<or> rc5 = - 1"
          proof -
            show "netdevs w5 = (netdevs w)(?k \<mapsto>
                      (if rc5 = 0 then d else d\<lparr>dev_flags := dev_flags d AND NOT 1\<rparr>))"
            proof (cases "rc5 < 0")
              case True
              then show ?thesis
                using ioctl_failure [OF U True] H2 n3 by (simp add: perror_frame)
            next
              case False
              from U False obtain d5 where
                d5: "netdevs (perror ''ioctl (SIOCSIFHWADDR)'' w4) ?k = Some d5"
                and rc5_0: "rc5 = 0"
                and n5': "netdevs w5 = (netdevs (perror ''ioctl (SIOCSIFHWADDR)'' w4))(?k \<mapsto>
                    d5\<lparr>dev_flags := ifr_flags (restore_request n w m (dev_flags d))\<rparr>)"
                by (rule ioctl_set_flags_success) simp
              have "d5 = d\<lparr>dev_flags := dev_flags d AND NOT 1\<rparr>"
                using d5 H2 n3 by (simp add: perror_frame)
              then show ?thesis
                using n5' rc5_0 H2 n3 by (simp add: perror_frame restore_request_def)
            qed
            show "rc5 = 0 \<or> rc5 = - 1"
            proof (cases "rc5 < 0")
              case True
              then show ?thesis using ioctl_failure [OF U True] by simp
            next
              case False
              from U False show ?thesis by (rule ioctl_set_flags_success) simp
            qed
          qed
          show thesis
            using res S1 G1 D1 H1 U1 H2 fd fd0 d n2 rc2_0 rc3_0 n5 rc5
            by (intro address_failed [of fd d rc5]) (simp_all add: perror_frame close_frame)
        next
          case rc4: False
          from H rc4 obtain d4 where d4: "netdevs w3 ?k = Some d4"
            and r4: "r4 = address_request n w m" and rc4_0: "rc4 = 0"
            and n4': "netdevs w4 = (netdevs w3)(?k \<mapsto>
                        d4\<lparr>dev_addr := take 6 (sa_data (address_request n w m))\<rparr>)"
            by (rule ioctl_set_address_success) simp
          have "d4 = d\<lparr>dev_flags := dev_flags d AND NOT 1\<rparr>"
            using d4 n3 by simp
          then have n4: "netdevs w4 = (netdevs w)(?k \<mapsto>
                d\<lparr>dev_flags := dev_flags d AND NOT 1,
                  dev_addr := take 6 (sa_data (address_request n w m))\<rparr>)"
            using n4' n3 by simp
          obtain rc5 r5 w5 where
            U: "ioctl fd SIOCSIFFLAGS (restore_request n w m (dev_flags d)) w4 = ((rc5, r5), w5)"
            by (metis prod.exhaust)
          note U1 = ioctl_frame [OF U]
          show thesis
          proof (cases "rc5 < 0")
            case True
            have "(ok, w') = (False, snd (close fd (perror ''ioctl (SIOCSIFFLAGS - up)'' w5)))"
              using S fd G rc2 D rc3 H rc4 U True R unfolding r2 r3 r4 by (simp add: defs)
            then show thesis
              using True S1 G1 D1 H1 U1 ioctl_failure [OF U True] fd fd0 d n2 rc2_0 rc3_0
                rc4_0 n4
              by (intro up_failed [of fd d]) (simp_all add: perror_frame close_frame)
          next
            case rc5: False
            from U rc5 obtain d5 where d5: "netdevs w4 ?k = Some d5" and rc5_0: "rc5 = 0"
              and n5': "netdevs w5 = (netdevs w4)(?k \<mapsto>
                        d5\<lparr>dev_flags := ifr_flags (restore_request n w m (dev_flags d))\<rparr>)"
              by (rule ioctl_set_flags_success) simp
            have "d5 = d\<lparr>dev_flags := dev_flags d AND NOT 1,
                         dev_addr := take 6 (sa_data (address_request n w m))\<rparr>"
              using d5 n4 by simp
            then have n5: "netdevs w5 = (netdevs w)(?k \<mapsto>
                  d\<lparr>dev_addr := take 6 (sa_data (address_request n w m))\<rparr>)"
              using n5' n4 by (simp add: restore_request_def)
            have "(ok, w') = (True, snd (close fd w5))"
              using S fd G rc2 D rc3 H rc4 U rc5 R unfolding r2 r3 r4 by (simp add: defs)
            then show thesis
              using S1 G1 D1 H1 U1 fd fd0 d n2 rc2_0 rc3_0 rc4_0 rc5_0 n5
              by (intro changed [of fd d]) (simp_all add: perror_frame close_frame)
          qed
        qed
      qed
    qed
  qed
qed

text \<open>The calls of a run are what the run appends to the trace.\<close>

lemma calls_of_run:
  "change_mac_address n m w = (ok, w') \<Longrightarrow> trace w' = trace w @ evs \<Longrightarrow>
   calls_of (change_mac_address n m) w = evs"
  by (simp add: calls_of_def)

lemma restore_request_flags [simp]: "ifr_flags (restore_request n w m f) = f"
  by (simp add: restore_request_def)

lemma down_request_flags [simp]: "ifr_flags (down_request n w f) = f AND NOT 1"
  by (simp add: down_request_def)

text \<open>No call of the run writes to the standard output or draws a random value.\<close>

lemma socket_untouched:
  "stdout (snd (socket d t p w)) = stdout w" "rand_pos (snd (socket d t p w)) = rand_pos w"
  using socket_frame [of d t p w "fst (socket d t p w)" "snd (socket d t p w)"] by simp_all

lemma ioctl_untouched:
  "stdout (snd (ioctl fd req r w)) = stdout w" "rand_pos (snd (ioctl fd req r w)) = rand_pos w"
  using ioctl_frame [of fd req r w "fst (fst (ioctl fd req r w))" "snd (fst (ioctl fd req r w))"
      "snd (ioctl fd req r w)"] by simp_all

lemma change_mac_address_untouched:
  "stdout (snd (change_mac_address n m w)) = stdout w"
  "rand_pos (snd (change_mac_address n m w)) = rand_pos w"
  by (simp_all add: change_mac_address_def Let_def case_prod_beta socket_untouched
        ioctl_untouched perror_frame close_frame)

text \<open>
  In any run the socket is created once, the address is set at most once, with the six
  bytes of \<open>new_mac\<close>, and every request names the same interface.
\<close>

lemma change_mac_address_once:
  assumes "length (bytes m) = 6"
  shows "length (filter (\<lambda>e. operation_of e = Socket_creation)
                  (calls_of (change_mac_address n m) w)) = 1 \<and>
     length (filter (\<lambda>e. operation_of e = Address_set)
                  (calls_of (change_mac_address n m) w)) \<le> 1 \<and>
     list_all (\<lambda>e. map_option (\<lambda>r. take 6 (sa_data r)) (request_of e) = Some (bytes m))
       (filter (\<lambda>e. operation_of e = Address_set) (calls_of (change_mac_address n m) w)) \<and>
     list_all (\<lambda>e. case request_of e of
                   None \<Rightarrow> True
                 | Some r \<Rightarrow> cstr (ifr_name r) = kernel_name n)
       (calls_of (change_mac_address n m) w)"
proof -
  obtain ok w' where R: "change_mac_address n m w = (ok, w')"
    by (cases "change_mac_address n m w")
  have addr: "take 6 (sa_data (address_request n w m)) = bytes m"
    using assms by (simp add: address_request_def)
  from R show ?thesis
    by (cases rule: change_mac_address_runs) (simp_all add: calls_of_run [OF R] addr)
qed

section \<open>The steps of \<^verbatim>\<open>main\<close>\<close>

lemma generate_mac_address_untouched:
  "trace (snd (generate_mac_address w)) = trace w"
  "stdout (snd (generate_mac_address w)) = stdout w"
  "stderr (snd (generate_mac_address w)) = stderr w"
  "length (bytes (fst (generate_mac_address w))) = 6"
  "rand_pos (snd (generate_mac_address w)) = rand_pos w + 6"
  by (simp_all add: generate_mac_address_result)

lemma srand_untouched:
  "trace (srand s w) = trace w" "stdout (srand s w) = stdout w" "stderr (srand s w) = stderr w"
  "rand_pos (srand s w) = 0"
  by (simp_all add: srand_def)

lemma main_without_interface:
  "length argv < 2 \<Longrightarrow>
   main argv w =
     (EXIT_FAILURE,
      fprintf_stderr (''Usage: '' @ (case argv of [] \<Rightarrow> ''(null)'' | a # _ \<Rightarrow> a) @
                      '' INTERFACE'' @ [CHR 0x0A]) w)"
  by (simp add: main_def Let_def)

lemma main_with_interface:
  assumes "2 \<le> length argv"
  shows "main argv w =
     (if fst (change_mac_address (argv ! 1) (fst (generate_mac_address (srand (getpid w) w)))
                (snd (generate_mac_address (srand (getpid w) w))))
      then (EXIT_SUCCESS,
            printf (format_mac (fst (generate_mac_address (srand (getpid w) w))))
              (snd (change_mac_address (argv ! 1)
                      (fst (generate_mac_address (srand (getpid w) w)))
                      (snd (generate_mac_address (srand (getpid w) w))))))
      else (EXIT_FAILURE,
            fprintf_stderr (''Failed to change MAC address.'' @ [CHR 0x0A])
              (snd (change_mac_address (argv ! 1)
                      (fst (generate_mac_address (srand (getpid w) w)))
                      (snd (generate_mac_address (srand (getpid w) w)))))))"
  using assms by (simp add: main_def Let_def case_prod_beta)

lemma calls_of_main:
  "calls_of (main argv) w =
     (if 2 \<le> length argv
      then calls_of (change_mac_address (argv ! 1)
                       (fst (generate_mac_address (srand (getpid w) w))))
             (snd (generate_mac_address (srand (getpid w) w)))
      else [])"
proof (cases "2 \<le> length argv")
  case True
  then show ?thesis
    by (simp add: calls_of_def main_with_interface printf_def fprintf_stderr_def
          generate_mac_address_untouched srand_untouched)
next
  case False
  then show ?thesis
    by (simp add: calls_of_def main_without_interface fprintf_stderr_def)
qed

text \<open>
  The line \<^verbatim>\<open>printf\<close> produces for an address reads back as the six bytes of the address.
\<close>

lemma hex_value_hex_digit: "k < 16 \<Longrightarrow> hex_value (hex_digit k) = Some k"
proof -
  have "\<forall>k \<in> set [0..<16]. hex_value (hex_digit k) = Some k"
    by code_simp
  then show "k < 16 \<Longrightarrow> hex_value (hex_digit k) = Some k"
    by simp
qed

lemma hex_value_digits:
  "hex_value (hex_digit (unat (b :: 8 word) div 16)) = Some (unat b div 16)"
  "hex_value (hex_digit (unat b mod 16)) = Some (unat b mod 16)"
proof -
  have "unat b < 256"
    using unsigned_less [of b, where ?'a = nat] by simp
  then have "unat b div 16 < 16"
    by simp
  then show "hex_value (hex_digit (unat b div 16)) = Some (unat b div 16)"
    by (rule hex_value_hex_digit)
  show "hex_value (hex_digit (unat b mod 16)) = Some (unat b mod 16)"
    by (rule hex_value_hex_digit) simp
qed

lemma read_pairs_hex02X:
  "read_pairs (hex02X b @ CHR '':'' # rest) = map_option ((#) b) (read_pairs rest)"
  "read_pairs (hex02X b @ [CHR 0x0A]) = Some [b]"
  by (simp_all add: hex02X_def hex_value_digits)

lemma read_mac_line_format_mac:
  assumes "length (bytes m) = 6"
  shows "read_mac_line (format_mac m) = Some (bytes m)"
proof -
  from assms obtain b0 b1 b2 b3 b4 b5 where b: "bytes m = [b0, b1, b2, b3, b4, b5]"
    by (auto simp: length_Suc_conv eval_nat_numeral)
  have "format_mac m = ''New MAC: '' @ hex02X b0 @ CHR '':'' # hex02X b1 @ CHR '':'' #
          hex02X b2 @ CHR '':'' # hex02X b3 @ CHR '':'' # hex02X b4 @ CHR '':'' #
          hex02X b5 @ [CHR 0x0A]"
    by (simp add: format_mac_def b)
  then show ?thesis
    by (simp add: read_mac_line_def read_pairs_hex02X b)
qed

section \<open>Properties of \<^verbatim>\<open>generate_mac_address\<close>\<close>

text \<open>
  Claim C3. Whatever values the random source produces, the address returned by
  \<open>generate_mac_address\<close> has six bytes; in its first byte bit 1 (locally administered) is set
  and bit 0 (multicast) is clear; the other six bits of the first byte and all bits of the
  five other bytes are those of the values drawn, in the order drawn; exactly six values
  are drawn.
\<close>

theorem generate_mac_address_locally_administered_unicast:
  "length (bytes (fst (generate_mac_address w))) = 6 \<and>
   bit (bytes (fst (generate_mac_address w)) ! 0) 1 \<and>
   \<not> bit (bytes (fst (generate_mac_address w)) ! 0) 0 \<and>
   bytes (fst (generate_mac_address w)) ! 0 AND 0xFC = drawn_byte w 0 AND 0xFC \<and>
   tl (bytes (fst (generate_mac_address w))) =
     [drawn_byte w 1, drawn_byte w 2, drawn_byte w 3, drawn_byte w 4, drawn_byte w 5] \<and>
   rand_pos (snd (generate_mac_address w)) = rand_pos w + 6"
proof -
  have m: "(0xFC :: 8 word) = NOT (mask 2)" "(0xFE :: 8 word) = NOT 1"
    by (simp_all add: mask_eq_exp_minus_1)
  have keep: "((b AND 0xFE) OR 0x02) AND 0xFC = b AND 0xFC" for b :: "8 word"
    unfolding m by (rule bit_word_eqI) (auto simp add: bit_simps)
  have set1: "bit ((b AND 0xFE) OR 0x02) (Suc 0)" for b :: "8 word"
    by (simp add: bit_simps)
  have clr0: "\<not> bit ((b AND 0xFE) OR 0x02) 0" for b :: "8 word"
    by (simp add: bit_simps)
  show ?thesis
    by (simp add: generate_mac_address_result keep set1 clr0)
qed

section \<open>Properties of \<^verbatim>\<open>change_mac_address\<close>\<close>

text \<open>
  Claim C1, as amended. In every run of \<open>change_mac_address\<close> that returns false after
  the bring-down succeeded, the last control operation issued before the socket is closed
  is a flags-set operation on the interface that carries the interface's original flags.
  The flags are back at their original value on return when that operation succeeds; when
  it fails, the interface is left with \<open>IFF_UP\<close> clear.
\<close>

theorem failure_after_bring_down_restores_best_effort:
  assumes "\<not> fst (change_mac_address n m w)"
    and "brought_down (calls_of (change_mac_address n m) w)"
  shows "\<exists>fd r rc d.
           netdevs w (kernel_name n) = Some d \<and>
           last (control_operations (calls_of (change_mac_address n m) w))
             = (Sys_ioctl fd SIOCSIFFLAGS r, rc) \<and>
           cstr (ifr_name r) = kernel_name n \<and>
           ifr_flags r = dev_flags d \<and>
           (if 0 \<le> rc
            then map_option dev_flags
                   (netdevs (snd (change_mac_address n m w)) (kernel_name n))
                 = Some (dev_flags d)
            else map_option (\<lambda>x. bit (dev_flags x) 0)
                   (netdevs (snd (change_mac_address n m w)) (kernel_name n))
                 = Some False)"
proof -
  obtain ok w' where R: "change_mac_address n m w = (ok, w')"
    by (cases "change_mac_address n m w")
  have down: "\<not> bit (f AND NOT 1) 0" for f :: "16 word"
    by (simp add: bit_simps)
  from R show ?thesis
  proof (cases rule: change_mac_address_runs)
    case socket_failed
    then show ?thesis
      using assms(2) by (simp add: calls_of_run [OF R] brought_down_def)
  next
    case (retrieval_failed fd)
    then show ?thesis
      using assms(2) by (simp add: calls_of_run [OF R] brought_down_def)
  next
    case (down_failed fd d)
    then show ?thesis
      using assms(2) by (simp add: calls_of_run [OF R] brought_down_def succeeded_def)
  next
    case (address_failed fd d rc)
    then show ?thesis
      using R down [of "dev_flags d"]
      by (auto simp add: calls_of_run [OF R] control_operations_def)
  next
    case (up_failed fd d)
    then show ?thesis
      using R down [of "dev_flags d"]
      by (simp add: calls_of_run [OF R] control_operations_def)
  next
    case (changed fd d)
    then show ?thesis
      using assms(1) R by simp
  qed
qed

text \<open>
  Two runs of that kind on \<open>eth0\<close>, which is up. In the first the address-set is refused
  and the flags are put back; in the second the address is set and the restore is refused.
\<close>

theorem failure_after_bring_down_restores_best_effort_witness:
  "\<not> fst (change_mac_address ''eth0'' example_mac (example_world [False, False, False, True])) \<and>
   brought_down (calls_of (change_mac_address ''eth0'' example_mac)
                   (example_world [False, False, False, True])) \<and>
   (\<exists>fd r rc d.
      netdevs (example_world [False, False, False, True]) (kernel_name ''eth0'') = Some d \<and>
      last (control_operations (calls_of (change_mac_address ''eth0'' example_mac)
                                  (example_world [False, False, False, True])))
        = (Sys_ioctl fd SIOCSIFFLAGS r, rc) \<and>
      cstr (ifr_name r) = kernel_name ''eth0'' \<and>
      ifr_flags r = dev_flags d \<and>
      (if 0 \<le> rc
       then map_option dev_flags
              (netdevs (snd (change_mac_address ''eth0'' example_mac
                               (example_world [False, False, False, True])))
                 (kernel_name ''eth0''))
            = Some (dev_flags d)
       else map_option (\<lambda>x. bit (dev_flags x) 0)
              (netdevs (snd (change_mac_address ''eth0'' example_mac
                               (example_world [False, False, False, True])))
                 (kernel_name ''eth0''))
            = Some False)) \<and>
   \<not> fst (change_mac_address ''eth0'' example_mac
            (example_world [False, False, False, False, True])) \<and>
   brought_down (calls_of (change_mac_address ''eth0'' example_mac)
                   (example_world [False, False, False, False, True])) \<and>
   (\<exists>fd r rc d.
      netdevs (example_world [False, False, False, False, True]) (kernel_name ''eth0'') = Some d \<and>
      last (control_operations (calls_of (change_mac_address ''eth0'' example_mac)
                                  (example_world [False, False, False, False, True])))
        = (Sys_ioctl fd SIOCSIFFLAGS r, rc) \<and>
      cstr (ifr_name r) = kernel_name ''eth0'' \<and>
      ifr_flags r = dev_flags d \<and>
      (if 0 \<le> rc
       then map_option dev_flags
              (netdevs (snd (change_mac_address ''eth0'' example_mac
                               (example_world [False, False, False, False, True])))
                 (kernel_name ''eth0''))
            = Some (dev_flags d)
       else map_option (\<lambda>x. bit (dev_flags x) 0)
              (netdevs (snd (change_mac_address ''eth0'' example_mac
                               (example_world [False, False, False, False, True])))
                 (kernel_name ''eth0''))
            = Some False))"
proof -
  have h1: "\<not> fst (change_mac_address ''eth0'' example_mac
                     (example_world [False, False, False, True]))"
    by code_simp
  have h2: "brought_down (calls_of (change_mac_address ''eth0'' example_mac)
                            (example_world [False, False, False, True]))"
    by code_simp
  have h3: "\<not> fst (change_mac_address ''eth0'' example_mac
                     (example_world [False, False, False, False, True]))"
    by code_simp
  have h4: "brought_down (calls_of (change_mac_address ''eth0'' example_mac)
                            (example_world [False, False, False, False, True]))"
    by code_simp
  show ?thesis
    using h1 h2 h3 h4
      failure_after_bring_down_restores_best_effort [OF h1 h2]
      failure_after_bring_down_restores_best_effort [OF h3 h4]
    by blast
qed

text \<open>
  The claim as first stated (the flags are restored on every such run) fails when the
  kernel refuses the last flags-set: the address of \<open>eth0\<close> is set, the function returns
  false, and \<open>IFF_UP\<close>, set before the call, is clear on return.
\<close>

theorem restore_failure_counterexample:
  "\<not> fst (change_mac_address ''eth0'' example_mac (example_world [False, False, False, False, True])) \<and>
   brought_down (calls_of (change_mac_address ''eth0'' example_mac)
                   (example_world [False, False, False, False, True])) \<and>
   map_option (\<lambda>d. bit (dev_flags d) 0)
     (netdevs (example_world [False, False, False, False, True]) ''eth0'') = Some True \<and>
   map_option (\<lambda>d. bit (dev_flags d) 0)
     (netdevs (snd (change_mac_address ''eth0'' example_mac
                      (example_world [False, False, False, False, True]))) ''eth0'')
     = Some False"
  by code_simp

text \<open>
  Claim C2. Whenever \<open>change_mac_address interface_name new_mac\<close> returns true, the
  interface the kernel finds under the name exists, its hardware address on return is
  exactly the six bytes of \<open>new_mac\<close>, and its flags (indeed everything but the address)
  are what they were before the call.
\<close>

theorem success_sets_address_and_restores_flags:
  assumes "fst (change_mac_address n m w)" and "length (bytes m) = 6"
  shows "\<exists>d. netdevs w (kernel_name n) = Some d \<and>
             netdevs (snd (change_mac_address n m w)) (kernel_name n)
               = Some (d\<lparr>dev_addr := bytes m\<rparr>) \<and>
             map_option dev_addr (netdevs (snd (change_mac_address n m w)) (kernel_name n))
               = Some (bytes m) \<and>
             map_option dev_flags (netdevs (snd (change_mac_address n m w)) (kernel_name n))
               = map_option dev_flags (netdevs w (kernel_name n))"
proof -
  obtain ok w' where R: "change_mac_address n m w = (ok, w')"
    by (cases "change_mac_address n m w")
  with assms(1) have ok by simp
  from R show ?thesis
  proof (cases rule: change_mac_address_runs)
    case (changed fd d)
    then show ?thesis
      using R assms(2) by (simp add: address_request_def)
  qed (use \<open>ok\<close> in simp_all)
qed

theorem success_sets_address_and_restores_flags_witness:
  "fst (change_mac_address ''eth0'' example_mac (example_world [])) \<and>
   length (bytes example_mac) = 6 \<and>
   (\<exists>d. netdevs (example_world []) (kernel_name ''eth0'') = Some d \<and>
        netdevs (snd (change_mac_address ''eth0'' example_mac (example_world [])))
          (kernel_name ''eth0'') = Some (d\<lparr>dev_addr := bytes example_mac\<rparr>) \<and>
        map_option dev_addr
          (netdevs (snd (change_mac_address ''eth0'' example_mac (example_world [])))
             (kernel_name ''eth0'')) = Some (bytes example_mac) \<and>
        map_option dev_flags
          (netdevs (snd (change_mac_address ''eth0'' example_mac (example_world [])))
             (kernel_name ''eth0''))
          = map_option dev_flags (netdevs (example_world []) (kernel_name ''eth0'')))"
proof -
  have h1: "fst (change_mac_address ''eth0'' example_mac (example_world []))"
    by code_simp
  have h2: "length (bytes example_mac) = 6"
    by code_simp
  show ?thesis
    using h1 h2 success_sets_address_and_restores_flags [OF h1 h2] by blast
qed

text \<open>
  Claim C4, as amended. In every run of \<open>change_mac_address\<close> the control operations
  come in the order bring-down, change, bring-up: the first flags-set operation clears
  \<open>IFF_UP\<close> and is issued before any address-set operation, and the flags-restore
  operation is issued only after the address-set operation has been issued, whether that
  one succeeded or, on the recovery path, failed. On every run without a failed
  address-set the restore follows a successful one (the order in the strict sense).
\<close>

theorem operations_in_order:
  "in_order False Before_down (calls_of (change_mac_address n m) w) \<and>
   in_order (\<not> list_ex (\<lambda>e. operation_of e = Address_set \<and> failed e)
                  (calls_of (change_mac_address n m) w))
     Before_down (calls_of (change_mac_address n m) w)"
proof -
  obtain ok w' where R: "change_mac_address n m w = (ok, w')"
    by (cases "change_mac_address n m w")
  have down: "clears_IFF_UP (Sys_ioctl fd SIOCSIFFLAGS (down_request n w f), rc)" for fd f rc
    by (simp add: clears_IFF_UP_def bit_simps)
  from R show ?thesis
    by (cases rule: change_mac_address_runs)
       (simp_all add: calls_of_run [OF R] down succeeded_def failed_def)
qed

text \<open>
  On the run where every step succeeds the order holds in the strict sense; on the run
  where the address-set is refused it holds with the restore after the failed change.
\<close>

theorem operations_in_order_witness:
  "in_order True Before_down
     (calls_of (change_mac_address ''eth0'' example_mac) (example_world [])) \<and>
   in_order False Before_down
     (calls_of (change_mac_address ''eth0'' example_mac)
        (example_world [False, False, False, True]))"
proof -
  have all_succeed:
    "\<not> list_ex (\<lambda>e. operation_of e = Address_set \<and> failed e)
         (calls_of (change_mac_address ''eth0'' example_mac) (example_world []))"
    by code_simp
  show ?thesis
    using all_succeed
      operations_in_order [of "''eth0''" example_mac "example_world []"]
      operations_in_order [of "''eth0''" example_mac "example_world [False, False, False, True]"]
    by simp
qed

text \<open>
  The claim as first stated lets the restore follow a successful address-set only. When
  the kernel refuses the address-set, lines 119 and 120 still issue the restore.
\<close>

theorem restore_after_failed_change_counterexample:
  "\<not> in_order True Before_down
       (calls_of (change_mac_address ''eth0'' example_mac)
          (example_world [False, False, False, True]))"
  by code_simp

text \<open>
  Claim C5. If the address-set operation fails, \<open>change_mac_address\<close> returns false,
  and what follows the failed operation is exactly one flags-set operation with the
  interface's original flags, whatever its result \<open>rc\<close>, and then the \<open>close\<close>. The
  only message printed is the one for the failed address-set: the result of the restore is
  not looked at.
\<close>

theorem address_failure_single_recovery:
  assumes "list_ex (\<lambda>e. operation_of e = Address_set \<and> failed e)
             (calls_of (change_mac_address n m) w)"
  shows "\<not> fst (change_mac_address n m w) \<and>
         (\<exists>fd r rc d.
            netdevs w (kernel_name n) = Some d \<and>
            dropWhile (\<lambda>e. operation_of e \<noteq> Address_set) (calls_of (change_mac_address n m) w)
              = [(Sys_ioctl fd SIOCSIFHWADDR (address_request n w m), - 1),
                 (Sys_ioctl fd SIOCSIFFLAGS r, rc),
                 (Sys_close fd, 0)] \<and>
            cstr (ifr_name r) = kernel_name n \<and>
            ifr_flags r = dev_flags d) \<and>
         stderr (snd (change_mac_address n m w)) = stderr w @ [Perror ''ioctl (SIOCSIFHWADDR)'']"
proof -
  obtain ok w' where R: "change_mac_address n m w = (ok, w')"
    by (cases "change_mac_address n m w")
  from R show ?thesis
  proof (cases rule: change_mac_address_runs)
    case (address_failed fd d rc)
    then show ?thesis
      using R by (simp add: calls_of_run [OF R])
  qed (use assms in \<open>simp_all add: calls_of_run [OF R] failed_def\<close>)
qed

text \<open>
  Two runs in which the address-set is refused: in the first the restore is refused as
  well, in the second it succeeds. Both end the same way.
\<close>

theorem address_failure_single_recovery_witness:
  "list_ex (\<lambda>e. operation_of e = Address_set \<and> failed e)
     (calls_of (change_mac_address ''eth0'' example_mac)
        (example_world [False, False, False, True, True])) \<and>
   map snd (dropWhile (\<lambda>e. operation_of e \<noteq> Address_set)
              (calls_of (change_mac_address ''eth0'' example_mac)
                 (example_world [False, False, False, True, True]))) = [- 1, - 1, 0] \<and>
   \<not> fst (change_mac_address ''eth0'' example_mac
            (example_world [False, False, False, True, True])) \<and>
   stderr (snd (change_mac_address ''eth0'' example_mac
                  (example_world [False, False, False, True, True])))
     = stderr (example_world [False, False, False, True, True]) @
       [Perror ''ioctl (SIOCSIFHWADDR)''] \<and>
   list_ex (\<lambda>e. operation_of e = Address_set \<and> failed e)
     (calls_of (change_mac_address ''eth0'' example_mac)
        (example_world [False, False, False, True])) \<and>
   map snd (dropWhile (\<lambda>e. operation_of e \<noteq> Address_set)
              (calls_of (change_mac_address ''eth0'' example_mac)
                 (example_world [False, False, False, True]))) = [- 1, 0, 0] \<and>
   \<not> fst (change_mac_address ''eth0'' example_mac (example_world [False, False, False, True]))"
proof -
  have refused: "list_ex (\<lambda>e. operation_of e = Address_set \<and> failed e)
             (calls_of (change_mac_address ''eth0'' example_mac)
                (example_world [False, False, False, True, True]))"
    by code_simp
  have restored: "list_ex (\<lambda>e. operation_of e = Address_set \<and> failed e)
             (calls_of (change_mac_address ''eth0'' example_mac)
                (example_world [False, False, False, True]))"
    by code_simp
  have results:
    "map snd (dropWhile (\<lambda>e. operation_of e \<noteq> Address_set)
                (calls_of (change_mac_address ''eth0'' example_mac)
                   (example_world [False, False, False, True, True]))) = [- 1, - 1, 0]"
    "map snd (dropWhile (\<lambda>e. operation_of e \<noteq> Address_set)
                (calls_of (change_mac_address ''eth0'' example_mac)
                   (example_world [False, False, False, True]))) = [- 1, 0, 0]"
    by code_simp+
  show ?thesis
    using refused restored results
      address_failure_single_recovery [OF refused] address_failure_single_recovery [OF restored]
    by blast
qed

text \<open>
  Claim C6. \<open>change_mac_address\<close> returns true exactly when its control operations are
  the five (socket creation, flag retrieval, flags-set, address-set, flags-set) and all
  succeeded; it returns false exactly when one of the control operations it issued
  failed; and the operations issued are always an initial part of those five.
\<close>

theorem result_iff_all_operations_succeed:
  "fst (change_mac_address n m w) =
     (map operation_of (control_operations (calls_of (change_mac_address n m) w))
        = [Socket_creation, Flag_retrieval, Flags_set, Address_set, Flags_set] \<and>
      list_all succeeded (control_operations (calls_of (change_mac_address n m) w))) \<and>
   (\<not> fst (change_mac_address n m w)) =
     list_ex failed (control_operations (calls_of (change_mac_address n m) w)) \<and>
   map operation_of (control_operations (calls_of (change_mac_address n m) w)) =
     take (length (control_operations (calls_of (change_mac_address n m) w)))
       [Socket_creation, Flag_retrieval, Flags_set, Address_set, Flags_set]"
proof -
  obtain ok w' where R: "change_mac_address n m w = (ok, w')"
    by (cases "change_mac_address n m w")
  from R show ?thesis
    by (cases rule: change_mac_address_runs)
       (use R in \<open>auto simp add: calls_of_run [OF R] control_operations_def succeeded_def failed_def\<close>)
qed

theorem result_iff_all_operations_succeed_witness:
  "fst (change_mac_address ''eth0'' example_mac (example_world [])) \<and>
   list_all succeeded
     (control_operations (calls_of (change_mac_address ''eth0'' example_mac) (example_world []))) \<and>
   \<not> fst (change_mac_address ''eth0'' example_mac (example_world [False, False, True])) \<and>
   list_ex failed
     (control_operations (calls_of (change_mac_address ''eth0'' example_mac)
                            (example_world [False, False, True])))"
proof -
  have h1: "fst (change_mac_address ''eth0'' example_mac (example_world []))"
    by code_simp
  have h2: "\<not> fst (change_mac_address ''eth0'' example_mac (example_world [False, False, True]))"
    by code_simp
  show ?thesis
    using h1 h2
      result_iff_all_operations_succeed [of "''eth0''" example_mac "example_world []"]
      result_iff_all_operations_succeed
        [of "''eth0''" example_mac "example_world [False, False, True]"]
    by blast
qed

text \<open>
  Claim C8. For every \<open>interface_name\<close>, of any length, the name buffer of every
  request passed to the kernel has exactly \<open>IFNAMSIZ\<close> bytes, its last byte is NUL, and
  the name the kernel reads from it is the first \<open>IFNAMSIZ - 1\<close> bytes of
  \<open>interface_name\<close> (all of it when it is shorter), followed by NULs only.
\<close>

theorem interface_name_truncated_and_terminated:
  "list_all
     (\<lambda>e. case request_of e of
             None \<Rightarrow> True
           | Some r \<Rightarrow>
               length (ifr_name r) = IFNAMSIZ \<and>
               ifr_name r ! (IFNAMSIZ - 1) = CHR 0x00 \<and>
               cstr (ifr_name r) = take (IFNAMSIZ - 1) (cstr n) \<and>
               length (cstr (ifr_name r)) \<le> IFNAMSIZ - 1 \<and>
               ifr_name r = padded_name n)
     (calls_of (change_mac_address n m) w)"
proof -
  obtain ok w' where R: "change_mac_address n m w = (ok, w')"
    by (cases "change_mac_address n m w")
  have names: "ifr_name (named_request n w) = padded_name n"
    "ifr_name (down_request n w f) = padded_name n"
    "ifr_name (address_request n w m) = padded_name n"
    "ifr_name (restore_request n w m f) = padded_name n" for f
    by (simp_all add: named_request_def down_request_def address_request_def
          restore_request_def)
  have good: "length (padded_name n) = IFNAMSIZ \<and>
              padded_name n ! (IFNAMSIZ - 1) = CHR 0x00 \<and>
              cstr (padded_name n) = take (IFNAMSIZ - 1) (cstr n) \<and>
              length (cstr (padded_name n)) \<le> IFNAMSIZ - 1"
    using length_padded_name [of n] last_padded_name [of n] length_kernel_name [of n]
    by (simp add: cstr_padded_name) (simp add: kernel_name_def)
  from R show ?thesis
    by (cases rule: change_mac_address_runs)
       (use good in \<open>simp_all add: calls_of_run [OF R] names\<close>)
qed

text \<open>
  A name of 26 bytes reaches the kernel as its first 15.
\<close>

theorem interface_name_truncated_and_terminated_witness:
  "map (\<lambda>e. map_option (\<lambda>r. cstr (ifr_name r)) (request_of e))
     (calls_of (change_mac_address ''eth0-with-a-very-long-name'' example_mac)
        (example_world [False, True])) =
   [None, Some ''eth0-with-a-ver'', None] \<and>
   list_all
     (\<lambda>e. case request_of e of
             None \<Rightarrow> True
           | Some r \<Rightarrow>
               length (ifr_name r) = IFNAMSIZ \<and>
               ifr_name r ! (IFNAMSIZ - 1) = CHR 0x00 \<and>
               cstr (ifr_name r) = take (IFNAMSIZ - 1) (cstr ''eth0-with-a-very-long-name'') \<and>
               length (cstr (ifr_name r)) \<le> IFNAMSIZ - 1 \<and>
               ifr_name r = padded_name ''eth0-with-a-very-long-name'')
     (calls_of (change_mac_address ''eth0-with-a-very-long-name'' example_mac)
        (example_world [False, True]))"
proof -
  have h: "map (\<lambda>e. map_option (\<lambda>r. cstr (ifr_name r)) (request_of e))
     (calls_of (change_mac_address ''eth0-with-a-very-long-name'' example_mac)
        (example_world [False, True])) =
   [None, Some ''eth0-with-a-ver'', None]"
    by code_simp
  show ?thesis
    using h interface_name_truncated_and_terminated
      [of "''eth0-with-a-very-long-name''" example_mac "example_world [False, True]"]
    by blast
qed

text \<open>
  Claim C9. Every run starts with the socket creation. When it succeeded, the run issues
  exactly one \<open>close\<close>, on the descriptor \<open>socket\<close> returned, as its last call, whatever
  the result of the function, and the descriptor is not open on return. When it failed,
  nothing else is called.
\<close>

theorem socket_closed_exactly_once:
  "case calls_of (change_mac_address n m) w of
     [] \<Rightarrow> False
   | e # es \<Rightarrow>
       operation_of e = Socket_creation \<and>
       (if succeeded e
        then filter (\<lambda>c. operation_of c = Closing) es = [(Sys_close (snd e), 0)] \<and>
             last es = (Sys_close (snd e), 0) \<and>
             snd e \<notin> set (open_fds (snd (change_mac_address n m w)))
        else es = [])"
proof -
  obtain ok w' where R: "change_mac_address n m w = (ok, w')"
    by (cases "change_mac_address n m w")
  from R show ?thesis
    by (cases rule: change_mac_address_runs)
       (use R in \<open>simp_all add: calls_of_run [OF R] succeeded_def\<close>)
qed

theorem socket_closed_exactly_once_witness:
  "map operation_of (calls_of (change_mac_address ''eth0'' example_mac)
                       (example_world [False, False, False, True]))
     = [Socket_creation, Flag_retrieval, Flags_set, Address_set, Flags_set, Closing] \<and>
   (case calls_of (change_mac_address ''eth0'' example_mac)
                 (example_world [False, False, False, True]) of
     [] \<Rightarrow> False
   | e # es \<Rightarrow>
       operation_of e = Socket_creation \<and>
       (if succeeded e
        then filter (\<lambda>c. operation_of c = Closing) es = [(Sys_close (snd e), 0)] \<and>
             last es = (Sys_close (snd e), 0) \<and>
             snd e \<notin> set (open_fds (snd (change_mac_address ''eth0'' example_mac
                                            (example_world [False, False, False, True]))))
        else es = []))"
proof -
  have h: "map operation_of (calls_of (change_mac_address ''eth0'' example_mac)
                       (example_world [False, False, False, True]))
     = [Socket_creation, Flag_retrieval, Flags_set, Address_set, Flags_set, Closing]"
    by code_simp
  show ?thesis
    using h socket_closed_exactly_once
      [of "''eth0''" example_mac "example_world [False, False, False, True]"]
    by blast
qed

section \<open>Properties of \<^verbatim>\<open>main\<close>\<close>

text \<open>
  Claim C7. The system calls of \<open>main\<close> are those of one call of
  \<open>change_mac_address\<close>, on \<open>argv[1]\<close> and the address generated, or none when no
  interface is given: one socket is created, at most one address-set operation is issued,
  it carries the generated address, every request names the interface of \<open>argv[1]\<close>, and
  six random values (one address) are drawn.
\<close>

theorem main_changes_one_interface_once:
  "calls_of (main argv) w =
     (if 2 \<le> length argv
      then calls_of (change_mac_address (argv ! 1)
                       (fst (generate_mac_address (srand (getpid w) w))))
             (snd (generate_mac_address (srand (getpid w) w)))
      else []) \<and>
   length (filter (\<lambda>e. operation_of e = Socket_creation) (calls_of (main argv) w))
     = (if 2 \<le> length argv then 1 else 0) \<and>
   length (filter (\<lambda>e. operation_of e = Address_set) (calls_of (main argv) w)) \<le> 1 \<and>
   list_all (\<lambda>e. map_option (\<lambda>r. take 6 (sa_data r)) (request_of e)
                   = Some (bytes (fst (generate_mac_address (srand (getpid w) w)))))
     (filter (\<lambda>e. operation_of e = Address_set) (calls_of (main argv) w)) \<and>
   list_all (\<lambda>e. case request_of e of
                   None \<Rightarrow> True
                 | Some r \<Rightarrow> cstr (ifr_name r) = kernel_name (argv ! 1))
     (calls_of (main argv) w) \<and>
   rand_pos (snd (main argv w)) = (if 2 \<le> length argv then 6 else rand_pos w)"
proof (cases "2 \<le> length argv")
  case False
  then show ?thesis
    by (simp add: calls_of_main main_without_interface fprintf_stderr_def)
next
  case True
  let ?g = "generate_mac_address (srand (getpid w) w)"
  have len: "length (bytes (fst ?g)) = 6"
    by (simp add: generate_mac_address_untouched)
  have pos: "rand_pos (snd (main argv w)) = 6"
    using True
    by (simp add: main_with_interface printf_def fprintf_stderr_def
          change_mac_address_untouched generate_mac_address_untouched srand_untouched)
  note one = change_mac_address_once [OF len, of "argv ! 1" "snd ?g"]
  from one show ?thesis
    using True pos by (simp add: calls_of_main)
qed

theorem main_changes_one_interface_once_witness:
  "map operation_of (calls_of (main [''macmasq'', ''eth0'']) (example_world []))
     = [Socket_creation, Flag_retrieval, Flags_set, Address_set, Flags_set, Closing] \<and>
   length (filter (\<lambda>e. operation_of e = Address_set)
             (calls_of (main [''macmasq'', ''eth0'']) (example_world []))) \<le> 1 \<and>
   rand_pos (snd (main [''macmasq'', ''eth0''] (example_world []))) = 6"
proof -
  have h: "map operation_of (calls_of (main [''macmasq'', ''eth0'']) (example_world []))
     = [Socket_creation, Flag_retrieval, Flags_set, Address_set, Flags_set, Closing]"
    by code_simp
  note t = main_changes_one_interface_once [of "[''macmasq'', ''eth0'']" "example_world []"]
  from t have once: "length (filter (\<lambda>e. operation_of e = Address_set)
             (calls_of (main [''macmasq'', ''eth0'']) (example_world []))) \<le> 1"
    by blast
  from t have drawn: "rand_pos (snd (main [''macmasq'', ''eth0''] (example_world []))) = 6"
    by simp
  show ?thesis
    using h once drawn by blast
qed

text \<open>
  Claim C10. With fewer than two arguments \<open>main\<close> returns \<open>EXIT_FAILURE\<close>, prints the
  usage message, and neither draws a random value nor issues a system call. Otherwise it
  returns \<open>EXIT_SUCCESS\<close> and prints the new address exactly when
  \<open>change_mac_address\<close> returns true, and returns \<open>EXIT_FAILURE\<close> after the failure
  message when it returns false. The line printed on success is the only thing written
  to the standard output, and it reads back as the six bytes of the generated address, in
  upper-case hexadecimal, two digits a byte.
\<close>

theorem main_exit_status:
  "(length argv < 2 \<longrightarrow>
      fst (main argv w) = EXIT_FAILURE \<and>
      stderr (snd (main argv w)) =
        stderr w @ [Text (''Usage: '' @ (case argv of [] \<Rightarrow> ''(null)'' | a # _ \<Rightarrow> a) @
                          '' INTERFACE'' @ [CHR 0x0A])] \<and>
      stdout (snd (main argv w)) = stdout w \<and>
      calls_of (main argv) w = [] \<and>
      netdevs (snd (main argv w)) = netdevs w \<and>
      rand_seed (snd (main argv w)) = rand_seed w \<and>
      rand_pos (snd (main argv w)) = rand_pos w) \<and>
   (2 \<le> length argv \<longrightarrow>
      (let g = generate_mac_address (srand (getpid w) w);
           c = change_mac_address (argv ! 1) (fst g) (snd g)
       in if fst c
          then fst (main argv w) = EXIT_SUCCESS \<and>
               stdout (snd (main argv w)) = stdout w @ [Text (format_mac (fst g))] \<and>
               (\<exists>line. stdout (snd (main argv w)) = stdout w @ [Text line] \<and>
                       read_mac_line line = Some (bytes (fst g)) \<and>
                       length line = 27) \<and>
               stderr (snd (main argv w)) = stderr w
          else fst (main argv w) = EXIT_FAILURE \<and>
               stdout (snd (main argv w)) = stdout w \<and>
               stderr (snd (main argv w)) =
                 stderr (snd c) @ [Text (''Failed to change MAC address.'' @ [CHR 0x0A])])) \<and>
   EXIT_SUCCESS \<noteq> EXIT_FAILURE"
proof -
  let ?g = "generate_mac_address (srand (getpid w) w)"
  let ?c = "change_mac_address (argv ! 1) (fst ?g) (snd ?g)"
  have quiet: "fst ?c \<Longrightarrow> stderr (snd ?c) = stderr w"
  proof -
    assume ok: "fst ?c"
    obtain b w' where R: "?c = (b, w')"
      by (cases ?c)
    from R show ?thesis
      by (cases rule: change_mac_address_runs)
         (use ok R in \<open>simp_all add: generate_mac_address_untouched srand_untouched\<close>)
  qed
  have shown: "read_mac_line (format_mac (fst ?g)) = Some (bytes (fst ?g))"
    by (rule read_mac_line_format_mac) (simp add: generate_mac_address_untouched)
  have long: "length (format_mac m) = 27" for m
    by (simp add: format_mac_def hex02X_def)
  show ?thesis
    using quiet shown long
    by (auto simp add: main_without_interface main_with_interface calls_of_main Let_def
          printf_def fprintf_stderr_def change_mac_address_untouched
          generate_mac_address_untouched srand_untouched EXIT_SUCCESS_def EXIT_FAILURE_def)
qed

text \<open>
  Three invocations on the example host: without an interface; on \<open>eth0\<close> with nothing
  refused, where the address generated from the seed 4242 is \<^verbatim>\<open>92:B7:DC:01:26:4B\<close>; and
  on \<open>eth0\<close> with the socket refused.
\<close>

theorem main_exit_status_witness:
  "length [''macmasq''] < 2 \<and>
   fst (main [''macmasq''] (example_world [])) = EXIT_FAILURE \<and>
   stderr (snd (main [''macmasq''] (example_world []))) =
     [Text (''Usage: macmasq INTERFACE'' @ [CHR 0x0A])] \<and>
   calls_of (main [''macmasq'']) (example_world []) = [] \<and>
   2 \<le> length [''macmasq'', ''eth0''] \<and>
   fst (main [''macmasq'', ''eth0''] (example_world [])) = EXIT_SUCCESS \<and>
   bytes (fst (generate_mac_address (srand (getpid (example_world [])) (example_world []))))
     = [0x92, 0xB7, 0xDC, 0x01, 0x26, 0x4B] \<and>
   stdout (snd (main [''macmasq'', ''eth0''] (example_world []))) =
     [Text (''New MAC: 92:B7:DC:01:26:4B'' @ [CHR 0x0A])] \<and>
   (\<exists>line. stdout (snd (main [''macmasq'', ''eth0''] (example_world []))) = [Text line] \<and>
           read_mac_line line = Some [0x92, 0xB7, 0xDC, 0x01, 0x26, 0x4B]) \<and>
   fst (main [''macmasq'', ''eth0''] (example_world [True])) = EXIT_FAILURE \<and>
   stderr (snd (main [''macmasq'', ''eth0''] (example_world [True]))) =
     [Perror ''socket'', Text (''Failed to change MAC address.'' @ [CHR 0x0A])]"
proof -
  let ?g = "generate_mac_address (srand (getpid (example_world [])) (example_world []))"
  let ?g' = "generate_mac_address (srand (getpid (example_world [True])) (example_world [True]))"
  have h1: "fst (change_mac_address ([''macmasq'', ''eth0''] ! 1) (fst ?g) (snd ?g))"
    by code_simp
  have h2: "\<not> fst (change_mac_address ([''macmasq'', ''eth0''] ! 1) (fst ?g') (snd ?g'))"
    by code_simp
  have h3: "format_mac (fst ?g) = ''New MAC: 92:B7:DC:01:26:4B'' @ [CHR 0x0A]"
    by code_simp
  have h4: "stderr (snd (change_mac_address ([''macmasq'', ''eth0''] ! 1) (fst ?g') (snd ?g')))
            = [Perror ''socket'']"
    by code_simp
  have h5: "stderr (example_world []) = []" "stdout (example_world []) = []"
    by (simp_all add: example_world_def)
  have h6: "bytes (fst ?g) = [0x92, 0xB7, 0xDC, 0x01, 0x26, 0x4B]"
    by code_simp
  show ?thesis
    using h1 h2 h3 h4 h5 h6
      main_exit_status [of "[''macmasq'']" "example_world []"]
      main_exit_status [of "[''macmasq'', ''eth0'']" "example_world []"]
      main_exit_status [of "[''macmasq'', ''eth0'']" "example_world [True]"]
    by (auto simp add: Let_def)
qed

end
